theory Spec2Isabelle
  imports Main "HOL-Library.Sublist" "HOL-Library.Word"
begin

section \<open>The test bus object of package dbus (base/watchers/dbus/testobject.go)\<close>

text \<open>
  The file implements \<^verbatim>\<open>TestBusObject\<close>, an in-process stand-in for a remote D-Bus
  object. The embedding is sequential: the two mutexes (\<^verbatim>\<open>t.mu\<close>, \<^verbatim>\<open>t.conn.mu\<close>) only
  serialise the bodies modelled here and are left out. Pointers are flattened: the
  object carries the service and the connection it points to, and every mutating
  method returns the updated object. A panic is the \<open>Inl\<close> branch of a sum.
\<close>

subsection \<open>Values\<close>

text \<open>
  \<^verbatim>\<open>interface{}\<close> values as a tagged union. \<^verbatim>\<open>dbus.Variant\<close> wraps one value;
  \<^verbatim>\<open>map[string]dbus.Variant\<close>, the payload of the properties-changed signal, is an
  association list.
\<close>

datatype dyn =
    DNil
  | DBool bool
  | DInt int
  | DStr string
  | DSlice "dyn list"
  | DVariantMap "(string \<times> Variant) list"
and Variant = MakeVariant dyn

text \<open>\<^verbatim>\<open>errors.New(msg)\<close>; a nil \<^verbatim>\<open>error\<close> is \<open>None\<close>.\<close>

datatype error = New string

text \<open>
  \<^verbatim>\<open>func(...interface{}) ([]interface{}, error)\<close>: a handler is taken to be a pure, total
  function of its arguments. A Go func value can be nil, hence \<open>handler option\<close> below.
\<close>

type_synonym handler = "dyn list \<Rightarrow> dyn list \<times> error option"

type_synonym ObjectPath = string

type_synonym Flags = "8 word"

text \<open>
  \<^verbatim>\<open>dbus.Call\<close>. \<^verbatim>\<open>Done\<close> is a channel of capacity one into which the call itself is
  sent before it is returned; the field records that this has happened.
\<close>

record dbus_Call =
  call_Destination :: string
  call_Path :: ObjectPath
  call_Method :: string
  call_Args :: "dyn list"
  call_Body :: "dyn list"
  call_Err :: "error option"
  call_Done :: bool

text \<open>\<^verbatim>\<open>dbus.MatchOption\<close>: a key and a value, both strings.\<close>

datatype MatchOption = WithMatchOption (opt_key: string) (opt_value: string)

text \<open>
  A Go \<^verbatim>\<open>map[string]string\<close> as an association list whose keys are distinct. The order
  of the list is the order in which \<^verbatim>\<open>range\<close> visits the map, which Go leaves
  unspecified; the properties below are proved for every order.
\<close>

type_synonym optMap = "(string \<times> string) list"

definition wellFormedMap :: "optMap \<Rightarrow> bool" where
  "wellFormedMap m = distinct (map fst m)"

text \<open>
  \<^verbatim>\<open>reflect.DeepEqual\<close> on two non-nil maps: the same number of entries, and every key
  of the first is bound to the same value in the second.
\<close>

definition DeepEqual :: "optMap \<Rightarrow> optMap \<Rightarrow> bool" where
  "DeepEqual a b =
     (length a = length b \<and> list_all (\<lambda>(k, v). map_of b k = Some v) a)"

subsection \<open>Collaborators declared outside the file\<close>

text \<open>
  The file uses package-level declarations that live in other files of package dbus.
  They are parameters of the model: every theorem that does not fix them holds for
  each choice.
\<close>

record pkg =
  expand :: "string \<Rightarrow> string \<Rightarrow> string"
  dbusMatchOptionMap :: "MatchOption list \<Rightarrow> optMap"
  bus :: string
  busPath :: ObjectPath
  propsChanged :: string

text \<open>One call of \<^verbatim>\<open>bus.emit(name, sender, path, args...)\<close>.\<close>

record Signal =
  sig_Name :: string
  sig_Sender :: string
  sig_Path :: ObjectPath
  sig_Body :: "dyn list"

record TestBus =
  emitted :: "Signal list"

record TestBusService =
  registered :: bool
  svc_id :: string
  svc_bus :: TestBus

record testBusConnection =
  closed :: bool
  matches :: "string \<rightharpoonup> optMap list"

text \<open>
  \<^verbatim>\<open>TestBusObject\<close> with the embedded \<^verbatim>\<open>*testBusObject\<close> inlined. \<open>conn = None\<close> is the nil
  connection of an object obtained directly from a service. Both maps are created
  when the object is constructed, so neither is nil.
\<close>

record TestBusObject =
  svc :: TestBusService
  dest :: string
  path :: ObjectPath
  props :: "string \<rightharpoonup> dyn"
  calls :: "string \<rightharpoonup> handler option"
  conn :: "testBusConnection option"

datatype panic = ServiceUnregistered | ConnectionClosed | NilPointerDereference

subsection \<open>The liveness check\<close>

text \<open>
  Modelled from the spec: \<^verbatim>\<open>TestBusService.checkRegistered\<close> is not in the file; it is
  the service's liveness probe, and (source comment on \<^verbatim>\<open>check\<close>) panics if the service is
  unregistered.
\<close>

definition checkRegistered :: "TestBusService \<Rightarrow> panic + unit" where
  "checkRegistered s = (if registered s then Inr () else Inl ServiceUnregistered)"

text \<open>
  Modelled from the spec: \<^verbatim>\<open>testBusConnection.checkOpen\<close> is not in the file; it is the
  connection's liveness probe, and (source comment on \<^verbatim>\<open>check\<close>) panics if the connection
  is closed.
\<close>

definition checkOpen :: "testBusConnection \<Rightarrow> panic + unit" where
  "checkOpen c = (if closed c then Inl ConnectionClosed else Inr ())"

definition check :: "TestBusObject \<Rightarrow> panic + unit" where
  "check t =
     (case checkRegistered (svc t) of
        Inl p \<Rightarrow> Inl p
      | Inr _ \<Rightarrow> (case conn t of None \<Rightarrow> Inr () | Some c \<Rightarrow> checkOpen c))"

text \<open>
  A live object: its service is registered and, when it is bound to a connection,
  that connection is open.
\<close>

definition live :: "TestBusObject \<Rightarrow> bool" where
  "live t = (registered (svc t) \<and> (case conn t of None \<Rightarrow> True | Some c \<Rightarrow> \<not> closed c))"

subsection \<open>Method calls\<close>

text \<open>\<^verbatim>\<open>h := t.calls[method]\<close>: a missing key reads as the nil func.\<close>

definition lookupCall :: "TestBusObject \<Rightarrow> string \<Rightarrow> handler option" where
  "lookupCall t method = (case calls t method of None \<Rightarrow> None | Some h \<Rightarrow> h)"

definition Call :: "pkg \<Rightarrow> TestBusObject \<Rightarrow> string \<Rightarrow> Flags \<Rightarrow> dyn list \<Rightarrow> panic + dbus_Call option" where
  "Call P t method flags args =
     (case check t of
        Inl p \<Rightarrow> Inl p
      | Inr _ \<Rightarrow>
          (let method = expand P (dest t) method;
               call = \<lparr>call_Destination = dest t, call_Path = path t,
                       call_Method = method, call_Args = args,
                       call_Body = [], call_Err = None, call_Done = True\<rparr>
           in case lookupCall t method of
                None \<Rightarrow> Inr (Some (call\<lparr>call_Err := Some (New (''No such method: '' @ method))\<rparr>))
              | Some h \<Rightarrow>
                  Inr (Some (call\<lparr>call_Body := fst (h args), call_Err := snd (h args)\<rparr>))))"

definition CallWithContext ::
  "pkg \<Rightarrow> TestBusObject \<Rightarrow> 'ctx \<Rightarrow> string \<Rightarrow> Flags \<Rightarrow> dyn list \<Rightarrow> panic + dbus_Call option" where
  "CallWithContext P t ctx method flags args = Call P t method flags args"

text \<open>
  \<^verbatim>\<open>Go\<close> and \<^verbatim>\<open>GoWithContext\<close> return nil at once and leave the work to a goroutine that
  sleeps 505 milliseconds and then sends the result of \<^verbatim>\<open>Call\<close> on the given channel.
  Goroutines, channels and the clock have no counterpart in this sequential
  embedding, so the two methods are not part of it.
\<close>

text \<open>
  \<^verbatim>\<open>On\<close> does not call \<^verbatim>\<open>check\<close>; it has no panicking branch. It returns in the same sum
  type as the other methods so that their outcomes can be compared.
\<close>

definition On :: "pkg \<Rightarrow> TestBusObject \<Rightarrow> string \<Rightarrow> handler option \<Rightarrow> panic + TestBusObject" where
  "On P t method do = Inr (t\<lparr>calls := (calls t)(expand P (dest t) method \<mapsto> do)\<rparr>)"

text \<open>
  Modelled from the spec: \<^verbatim>\<open>TestBus.emit\<close> is not in the file; it is the bus-wide fan-out
  \<^verbatim>\<open>emit(signalName, originServiceID, originPath, args...)\<close>. Delivery to listeners is
  outside the file; the model records every emit call, in order.
\<close>

definition emit :: "TestBus \<Rightarrow> string \<Rightarrow> string \<Rightarrow> ObjectPath \<Rightarrow> dyn list \<Rightarrow> TestBus" where
  "emit b name sender p args =
     b\<lparr>emitted := emitted b @
         [\<lparr>sig_Name = name, sig_Sender = sender, sig_Path = p, sig_Body = args\<rparr>]\<rparr>"

text \<open>\<^verbatim>\<open>Emit\<close> does not call \<^verbatim>\<open>check\<close> either.\<close>

definition Emit :: "pkg \<Rightarrow> TestBusObject \<Rightarrow> string \<Rightarrow> dyn list \<Rightarrow> panic + TestBusObject" where
  "Emit P t name args =
     (let name = expand P (dest t) name
      in Inr (t\<lparr>svc := (svc t)\<lparr>svc_bus := emit (svc_bus (svc t)) name (svc_id (svc t)) (path t) args\<rparr>\<rparr>))"

subsection \<open>Properties\<close>

text \<open>The zero value \<^verbatim>\<open>dbus.Variant{}\<close> returned beside an error.\<close>

definition zeroVariant :: Variant where
  "zeroVariant = MakeVariant DNil"

definition GetProperty :: "TestBusObject \<Rightarrow> string \<Rightarrow> panic + (Variant \<times> error option)" where
  "GetProperty t p =
     (case check t of
        Inl e \<Rightarrow> Inl e
      | Inr _ \<Rightarrow>
          (case props t p of
             Some val \<Rightarrow> Inr (MakeVariant val, None)
           | None \<Rightarrow> Inr (zeroVariant, Some (New (''No such property: '' @ p)))))"

definition Destination :: "TestBusObject \<Rightarrow> panic + string" where
  "Destination t = (case check t of Inl e \<Rightarrow> Inl e | Inr _ \<Rightarrow> Inr (dest t))"

definition Path :: "TestBusObject \<Rightarrow> panic + ObjectPath" where
  "Path t = (case check t of Inl e \<Rightarrow> Inl e | Inr _ \<Rightarrow> Inr (path t))"

text \<open>\<^verbatim>\<open>propsChanged P\<close> stands for the string \<^verbatim>\<open>propsChanged.String()\<close>.\<close>

definition SetProperty :: "pkg \<Rightarrow> TestBusObject \<Rightarrow> string \<Rightarrow> dyn \<Rightarrow> bool \<Rightarrow> panic + TestBusObject" where
  "SetProperty P t prop val signal =
     (case check t of
        Inl e \<Rightarrow> Inl e
      | Inr _ \<Rightarrow>
          (let prop = expand P (dest t) prop;
               t = t\<lparr>props := (props t)(prop \<mapsto> val)\<rparr>
           in if signal
              then Emit P t (propsChanged P)
                     [DStr (dest t), DVariantMap [(prop, MakeVariant val)]]
              else Inr t))"

subsection \<open>Signal matches\<close>

definition matchCallResult :: "pkg \<Rightarrow> string \<Rightarrow> error option \<Rightarrow> dbus_Call option" where
  "matchCallResult P method err =
     Some \<lparr>call_Destination = bus P, call_Path = busPath P,
           call_Method = expand P (bus P) method,
           call_Args = [DStr ''should not matter''],
           call_Body = [], call_Err = err, call_Done = True\<rparr>"

text \<open>\<^verbatim>\<open>strings.HasPrefix(s, prefix)\<close>.\<close>

definition HasPrefix :: "string \<Rightarrow> string \<Rightarrow> bool" where
  "HasPrefix s p = prefix p s"

text \<open>
  The loop \<^verbatim>\<open>for k := range optMap\<close> of \<^verbatim>\<open>AddMatchSignal\<close>: \<open>Some k\<close> when it reaches the
  \<^verbatim>\<open>return\<close> at key \<open>k\<close>, \<open>None\<close> when it runs to its end.
\<close>

fun rangeKeys :: "optMap \<Rightarrow> string option" where
  "rangeKeys [] = None"
| "rangeKeys ((k, v) # m) =
     (if k = ''path'' \<or> k = ''path_namespace'' \<or> k = ''sender'' then rangeKeys m
      else if HasPrefix k ''arg'' then rangeKeys m
      else Some k)"

text \<open>\<^verbatim>\<open>t.conn.matches[name]\<close>: a missing key reads as the nil slice.\<close>

definition lookupMatches :: "testBusConnection \<Rightarrow> string \<Rightarrow> optMap list" where
  "lookupMatches c name = (case matches c name of None \<Rightarrow> [] | Some ms \<Rightarrow> ms)"

text \<open>
  With a nil \<^verbatim>\<open>t.conn\<close> the statement \<^verbatim>\<open>t.conn.mu.Lock()\<close> dereferences a nil pointer, after
  the loop over the option keys.
\<close>

definition AddMatchSignal ::
  "pkg \<Rightarrow> TestBusObject \<Rightarrow> string \<Rightarrow> string \<Rightarrow> MatchOption list
     \<Rightarrow> panic + (dbus_Call option \<times> TestBusObject)" where
  "AddMatchSignal P t iface member options =
     (let name = iface @ ''.'' @ member
      in case check t of
           Inl e \<Rightarrow> Inl e
         | Inr _ \<Rightarrow>
             (let optMap = dbusMatchOptionMap P options
              in case rangeKeys optMap of
                   Some k \<Rightarrow>
                     Inr (matchCallResult P ''AddMatch''
                            (Some (New (''Unsupported match type: '' @ k))), t)
                 | None \<Rightarrow>
                     (case conn t of
                        None \<Rightarrow> Inl NilPointerDereference
                      | Some c \<Rightarrow>
                          Inr (matchCallResult P ''AddMatch'' None,
                               t\<lparr>conn := Some (c\<lparr>matches :=
                                    (matches c)(name \<mapsto> lookupMatches c name @ [optMap])\<rparr>)\<rparr>))))"

text \<open>
  The loop \<^verbatim>\<open>for i, m := range ms\<close> of \<^verbatim>\<open>RemoveMatchSignal\<close>: the index of the first entry
  that is deeply equal to \<open>optMap\<close>, counting from \<open>i\<close>.
\<close>

fun findMatch :: "optMap list \<Rightarrow> optMap \<Rightarrow> nat \<Rightarrow> nat option" where
  "findMatch [] optMap i = None"
| "findMatch (m # ms) optMap i =
     (if DeepEqual m optMap then Some i else findMatch ms optMap (Suc i))"

definition RemoveMatchSignal ::
  "pkg \<Rightarrow> TestBusObject \<Rightarrow> string \<Rightarrow> string \<Rightarrow> MatchOption list
     \<Rightarrow> panic + (dbus_Call option \<times> TestBusObject)" where
  "RemoveMatchSignal P t iface member options =
     (let name = iface @ ''.'' @ member
      in case check t of
           Inl e \<Rightarrow> Inl e
         | Inr _ \<Rightarrow>
             (case conn t of
                None \<Rightarrow> Inl NilPointerDereference
              | Some c \<Rightarrow>
                  (let ms = lookupMatches c name;
                       optMap = dbusMatchOptionMap P options
                   in case findMatch ms optMap 0 of
                        Some i \<Rightarrow>
                          Inr (matchCallResult P ''RemoveMatch'' None,
                               t\<lparr>conn := Some (c\<lparr>matches :=
                                    (matches c)(name \<mapsto> take i ms @ drop (Suc i) ms)\<rparr>)\<rparr>)
                      | None \<Rightarrow>
                          Inr (matchCallResult P ''RemoveMatch''
                                 (Some (New ''Match not found'')), t))))"

subsection \<open>A concrete package and concrete objects\<close>

text \<open>
  Modelled from the spec: \<^verbatim>\<open>expand\<close> is not in the file. The spec calls it name
  expansion: it resolves a short, destination-relative name against the destination
  into a fully-qualified name. Here a name without a dot is short and is prefixed
  with the destination and a dot; a name with a dot is taken as qualified already.
\<close>

definition expand_spec :: "string \<Rightarrow> string \<Rightarrow> string" where
  "expand_spec iface name = (if CHR ''.'' \<in> set name then name else iface @ ''.'' @ name)"

text \<open>\<^verbatim>\<open>optMap[k] = v\<close> on the association list.\<close>

fun assign :: "string \<Rightarrow> string \<Rightarrow> optMap \<Rightarrow> optMap" where
  "assign k v [] = [(k, v)]"
| "assign k v ((k', v') # m) = (if k = k' then (k, v) # m else (k', v') # assign k v m)"

text \<open>
  Modelled from the spec: \<^verbatim>\<open>dbusMatchOptionMap\<close> is not in the file. The spec calls it
  the match-option normalization, producing a comparable mapping from option key to
  option value. Here the options are entered into the mapping one after the other.
\<close>

definition dbusMatchOptionMap_spec :: "MatchOption list \<Rightarrow> optMap" where
  "dbusMatchOptionMap_spec options = foldl (\<lambda>m opt. assign (opt_key opt) (opt_value opt) m) [] options"

definition pkg0 :: pkg where
  "pkg0 = \<lparr>expand = expand_spec, dbusMatchOptionMap = dbusMatchOptionMap_spec,
           bus = ''org.freedesktop.DBus'', busPath = ''/org/freedesktop/DBus'',
           propsChanged = ''org.freedesktop.DBus.Properties.PropertiesChanged''\<rparr>"

definition svc0 :: TestBusService where
  "svc0 = \<lparr>registered = True, svc_id = '':1.1'', svc_bus = \<lparr>emitted = []\<rparr>\<rparr>"

definition conn0 :: testBusConnection where
  "conn0 = \<lparr>closed = False, matches = Map.empty\<rparr>"

text \<open>A live object bound to an open connection.\<close>

definition obj0 :: TestBusObject where
  "obj0 = \<lparr>svc = svc0, dest = ''org.test'', path = ''/org/test'',
           props = Map.empty, calls = Map.empty, conn = Some conn0\<rparr>"


text \<open>The same object after its service has been unregistered.\<close>

definition objU :: TestBusObject where
  "objU = obj0\<lparr>svc := svc0\<lparr>registered := False\<rparr>\<rparr>"

text \<open>The same object after its connection has been closed.\<close>

definition objC :: TestBusObject where
  "objC = obj0\<lparr>conn := Some (conn0\<lparr>closed := True\<rparr>)\<rparr>"

text \<open>A handler that answers with its arguments and an error.\<close>

definition echo :: handler where
  "echo args = (DStr ''ok'' # args, Some (New ''handler failed''))"

text \<open>The same object with \<open>echo\<close> registered under the expanded name of \<^verbatim>\<open>Ping\<close>.\<close>

definition objH :: TestBusObject where
  "objH = obj0\<lparr>calls := (calls obj0)(''org.test.Ping'' \<mapsto> Some echo)\<rparr>"

definition goodOptions :: "MatchOption list" where
  "goodOptions = [WithMatchOption ''path'' ''/org/test'', WithMatchOption ''arg0'' ''x'']"


subsection \<open>The specification's words\<close>



section \<open>Properties\<close>

subsection \<open>Auxiliary facts\<close>

lemma live_check: "live t \<Longrightarrow> check t = Inr ()"
  by (auto simp add: check_def checkRegistered_def checkOpen_def live_def split: option.splits)

lemma dead_check:
  "\<not> live t \<Longrightarrow> check t = Inl ServiceUnregistered \<or> check t = Inl ConnectionClosed"
  by (auto simp add: check_def checkRegistered_def checkOpen_def live_def split: option.splits)


lemma live_obj0: "live obj0"
  by (simp add: live_def obj0_def svc0_def conn0_def)

lemma live_objH: "live objH"
  by (simp add: live_def objH_def obj0_def svc0_def conn0_def)







lemma DeepEqual_map_of:
  assumes "wellFormedMap a" and "wellFormedMap b"
  shows "DeepEqual a b \<longleftrightarrow> map_of a = map_of b"
proof
  assume d: "DeepEqual a b"
  have da: "distinct a" and db: "distinct b"
    using assms by (auto simp add: wellFormedMap_def distinct_map)
  have sub: "set a \<subseteq> set b"
    using d by (auto simp add: DeepEqual_def list_all_iff dest: map_of_SomeD)
  have "card (set a) = card (set b)"
    using d da db by (simp add: DeepEqual_def distinct_card)
  with sub have "set a = set b"
    by (simp add: card_subset_eq)
  then show "map_of a = map_of b"
    using assms by (simp add: wellFormedMap_def map_of_inject_set)
next
  assume m: "map_of a = map_of b"
  then have s: "set a = set b"
    using assms by (simp add: wellFormedMap_def map_of_inject_set)
  have da: "distinct a" and db: "distinct b"
    using assms by (auto simp add: wellFormedMap_def distinct_map)
  have "length a = length b"
    using s da db by (metis distinct_card)
  moreover have "list_all (\<lambda>(k, v). map_of b k = Some v) a"
    using s assms(2) by (auto simp add: list_all_iff wellFormedMap_def)
  ultimately show "DeepEqual a b" by (simp add: DeepEqual_def)
qed




subsection \<open>Method calls\<close>

text \<open>
  Claim C1. For every method name \<open>m\<close>, every handler \<open>h\<close> registered with \<^verbatim>\<open>On(m, h)\<close>
  and every argument list, \<^verbatim>\<open>Call(m, flags, args...)\<close> on a live object returns a call
  record whose return values and error are exactly the values and the error of
  \<open>h args\<close>. The handler is a non-nil func, written \<open>Some h\<close>.
\<close>

theorem On_Call_returns_handler_result:
  assumes "live t"
  shows "\<exists>t' c. On P t m (Some h) = Inr t' \<and> Call P t' m flags args = Inr (Some c)
           \<and> call_Body c = fst (h args) \<and> call_Err c = snd (h args)"
proof -
  let ?t' = "t\<lparr>calls := (calls t)(expand P (dest t) m \<mapsto> Some h)\<rparr>"
  have on: "On P t m (Some h) = Inr ?t'"
    by (simp add: On_def)
  have "live ?t'"
    using assms by (simp add: live_def)
  then have chk: "check ?t' = Inr ()"
    by (rule live_check)
  have look: "lookupCall ?t' (expand P (dest ?t') m) = Some h"
    by (simp add: lookupCall_def)
  show ?thesis
    using on chk look by (simp add: Call_def Let_def)
qed

theorem On_Call_returns_handler_result_witness:
  "live obj0 \<and>
   \<not> isl (On pkg0 obj0 ''Ping'' (Some echo)) \<and>
   Call pkg0 (projr (On pkg0 obj0 ''Ping'' (Some echo))) ''Ping'' 0 [DInt 1]
     = Inr (Some \<lparr>call_Destination = ''org.test'', call_Path = ''/org/test'',
                  call_Method = ''org.test.Ping'', call_Args = [DInt 1],
                  call_Body = [DStr ''ok'', DInt 1],
                  call_Err = Some (New ''handler failed''), call_Done = True\<rparr>)"
proof -
  have h: "live obj0" by (rule live_obj0)
  from On_Call_returns_handler_result [OF h, of pkg0 "''Ping''" echo 0 "[DInt 1]"]
  obtain t' c where 1: "On pkg0 obj0 ''Ping'' (Some echo) = Inr t'"
    and 2: "Call pkg0 t' ''Ping'' 0 [DInt 1] = Inr (Some c)"
    and 3: "call_Body c = fst (echo [DInt 1])" and 4: "call_Err c = snd (echo [DInt 1])"
    by blast
  have 5: "call_Destination c = ''org.test'' \<and> call_Path c = ''/org/test'' \<and>
        call_Method c = ''org.test.Ping'' \<and> call_Args c = [DInt 1] \<and> call_Done c = True"
    using 1 2 by (auto simp add: On_def Call_def Let_def pkg0_def obj0_def expand_spec_def
        split: sum.splits option.splits)
  show ?thesis using h 1 2 3 4 5 by (cases c) (simp add: echo_def)
qed

text \<open>
  Claim C2. For every method name whose expanded form has no handler (no entry in
  \<^verbatim>\<open>t.calls\<close>, or the nil func), \<^verbatim>\<open>Call\<close> on a live object returns a call record, not a
  panic, whose error is \<^verbatim>\<open>"No such method: "\<close> followed by the expanded method name.
\<close>

theorem Call_no_such_method:
  assumes "live t" and "lookupCall t (expand P (dest t) m) = None"
  shows "\<exists>c. Call P t m flags args = Inr (Some c)
           \<and> call_Err c = Some (New (''No such method: '' @ expand P (dest t) m))"
  using assms by (simp add: Call_def Let_def live_check)

theorem Call_no_such_method_witness:
  "live obj0 \<and> lookupCall obj0 (expand pkg0 (dest obj0) ''Ping'') = None \<and>
   Call pkg0 obj0 ''Ping'' 0 [DInt 1]
     = Inr (Some \<lparr>call_Destination = ''org.test'', call_Path = ''/org/test'',
                  call_Method = ''org.test.Ping'', call_Args = [DInt 1],
                  call_Body = [],
                  call_Err = Some (New ''No such method: org.test.Ping''), call_Done = True\<rparr>)"
proof -
  have h: "live obj0" by (rule live_obj0)
  have n: "lookupCall obj0 (expand pkg0 (dest obj0) ''Ping'') = None"
    by (simp add: lookupCall_def obj0_def)
  from Call_no_such_method [OF h n, of 0 "[DInt 1]"]
  obtain c where 1: "Call pkg0 obj0 ''Ping'' 0 [DInt 1] = Inr (Some c)"
    and 2: "call_Err c = Some (New (''No such method: '' @ expand pkg0 (dest obj0) ''Ping''))"
    by blast
  have e: "expand pkg0 (dest obj0) ''Ping'' = ''org.test.Ping''"
    by (simp add: pkg0_def obj0_def expand_spec_def)
  have 3: "call_Destination c = ''org.test'' \<and> call_Path c = ''/org/test'' \<and>
        call_Method c = ''org.test.Ping'' \<and> call_Args c = [DInt 1] \<and> call_Body c = [] \<and>
        call_Done c = True"
    using 1 by (auto simp add: Call_def Let_def lookupCall_def pkg0_def obj0_def expand_spec_def
        split: sum.splits option.splits)
  show ?thesis using h n 1 2 3 e by (cases c) simp
qed

text \<open>
  Claim C9. For every method name, flags and argument list, \<^verbatim>\<open>Call\<close> on a live object
  returns a non-nil call record whose \<^verbatim>\<open>Destination\<close> is the object's destination, whose
  \<^verbatim>\<open>Path\<close> is the object's path, whose \<^verbatim>\<open>Method\<close> is the expanded method name and whose
  \<^verbatim>\<open>Args\<close> are the given arguments, with a handler and without one; without one the
  failure is the record's error field, and \<^verbatim>\<open>Call\<close> does not panic.
\<close>

theorem Call_record_fields:
  assumes "live t"
  shows "\<exists>c. Call P t m flags args = Inr (Some c)
           \<and> call_Destination c = dest t \<and> call_Path c = path t
           \<and> call_Method c = expand P (dest t) m \<and> call_Args c = args
           \<and> (case lookupCall t (expand P (dest t) m) of
                None \<Rightarrow> call_Err c = Some (New (''No such method: '' @ expand P (dest t) m))
              | Some h \<Rightarrow> call_Err c = snd (h args))"
  using assms by (simp add: Call_def Let_def live_check split: option.splits)

theorem Call_record_fields_witness:
  "live obj0 \<and> live objH \<and>
   \<not> isl (Call pkg0 obj0 ''Ping'' 4 [DStr ''a'']) \<and>
   map_option call_Destination (projr (Call pkg0 obj0 ''Ping'' 4 [DStr ''a''])) = Some ''org.test'' \<and>
   map_option call_Path (projr (Call pkg0 obj0 ''Ping'' 4 [DStr ''a''])) = Some ''/org/test'' \<and>
   map_option call_Method (projr (Call pkg0 obj0 ''Ping'' 4 [DStr ''a''])) = Some ''org.test.Ping'' \<and>
   map_option call_Args (projr (Call pkg0 obj0 ''Ping'' 4 [DStr ''a''])) = Some [DStr ''a''] \<and>
   map_option call_Err (projr (Call pkg0 obj0 ''Ping'' 4 [DStr ''a'']))
     = Some (Some (New ''No such method: org.test.Ping'')) \<and>
   \<not> isl (Call pkg0 objH ''Ping'' 4 [DStr ''a'']) \<and>
   map_option call_Destination (projr (Call pkg0 objH ''Ping'' 4 [DStr ''a''])) = Some ''org.test'' \<and>
   map_option call_Path (projr (Call pkg0 objH ''Ping'' 4 [DStr ''a''])) = Some ''/org/test'' \<and>
   map_option call_Method (projr (Call pkg0 objH ''Ping'' 4 [DStr ''a''])) = Some ''org.test.Ping'' \<and>
   map_option call_Args (projr (Call pkg0 objH ''Ping'' 4 [DStr ''a''])) = Some [DStr ''a''] \<and>
   map_option call_Err (projr (Call pkg0 objH ''Ping'' 4 [DStr ''a'']))
     = Some (Some (New ''handler failed''))"
proof -
  have h0: "live obj0" by (rule live_obj0)
  have hH: "live objH" by (rule live_objH)
  have e0: "expand pkg0 (dest obj0) ''Ping'' = ''org.test.Ping'' \<and> dest obj0 = ''org.test''
      \<and> path obj0 = ''/org/test'' \<and> lookupCall obj0 ''org.test.Ping'' = None"
    by (simp add: pkg0_def obj0_def expand_spec_def lookupCall_def)
  have eH: "expand pkg0 (dest objH) ''Ping'' = ''org.test.Ping'' \<and> dest objH = ''org.test''
      \<and> path objH = ''/org/test'' \<and> lookupCall objH ''org.test.Ping'' = Some echo"
    by (simp add: pkg0_def objH_def obj0_def expand_spec_def lookupCall_def)
  have s: "snd (echo [DStr ''a'']) = Some (New ''handler failed'')" by (simp add: echo_def)
  from Call_record_fields [OF h0, of pkg0 "''Ping''" 4 "[DStr ''a'']"]
       Call_record_fields [OF hH, of pkg0 "''Ping''" 4 "[DStr ''a'']"]
  show ?thesis using h0 hH e0 eH s by auto
qed

subsection \<open>Properties of the object\<close>







subsection \<open>Signal matches\<close>





subsection \<open>Liveness\<close>

text \<open>
  Claim C8, as it is written, covers every public operation. \<^verbatim>\<open>On\<close> does not call
  \<^verbatim>\<open>check\<close>: on \<open>objU\<close>, whose service is unregistered, \<^verbatim>\<open>On("Ping", echo)\<close> returns
  normally and the handler is registered.
\<close>

theorem On_unregistered_service_counterexample:
  "\<not> registered (svc objU) \<and> \<not> live objU \<and>
   \<not> isl (On pkg0 objU ''Ping'' (Some echo)) \<and>
   lookupCall (projr (On pkg0 objU ''Ping'' (Some echo))) ''org.test.Ping'' \<noteq> None"
  by (simp add: On_def lookupCall_def live_def objU_def obj0_def svc0_def conn0_def pkg0_def
      expand_spec_def)

text \<open>
  Claim C8, amended. Every public operation that begins with the liveness check, that
  is \<^verbatim>\<open>Call\<close>, \<^verbatim>\<open>CallWithContext\<close>, \<^verbatim>\<open>AddMatchSignal\<close>, \<^verbatim>\<open>RemoveMatchSignal\<close>, \<^verbatim>\<open>GetProperty\<close>,
  \<^verbatim>\<open>Destination\<close>, \<^verbatim>\<open>Path\<close> and \<^verbatim>\<open>SetProperty\<close>, panics rather than returning a value when
  it is invoked on an object whose owning service has been unregistered or, for an
  object bound to a connection, whose connection has been closed.
\<close>

theorem checked_operations_panic_when_not_live:
  assumes "\<not> live t"
  shows "\<exists>e. (e = ServiceUnregistered \<or> e = ConnectionClosed) \<and>
           Call P t m flags args = Inl e \<and>
           CallWithContext P t ctx m flags args = Inl e \<and>
           AddMatchSignal P t iface member options = Inl e \<and>
           RemoveMatchSignal P t iface member options = Inl e \<and>
           GetProperty t p = Inl e \<and>
           Destination t = Inl e \<and>
           Path t = Inl e \<and>
           SetProperty P t p v signal = Inl e"
  using dead_check [OF assms]
  by (auto simp add: Call_def CallWithContext_def AddMatchSignal_def RemoveMatchSignal_def
      GetProperty_def Destination_def Path_def SetProperty_def Let_def)

theorem checked_operations_panic_when_not_live_witness:
  "\<not> live objU \<and>
   Call pkg0 objU ''Ping'' 0 [] = Inl ServiceUnregistered \<and>
   CallWithContext pkg0 objU () ''Ping'' 0 [] = Inl ServiceUnregistered \<and>
   AddMatchSignal pkg0 objU ''org.test.Iface'' ''Changed'' goodOptions = Inl ServiceUnregistered \<and>
   RemoveMatchSignal pkg0 objU ''org.test.Iface'' ''Changed'' goodOptions
     = Inl ServiceUnregistered \<and>
   GetProperty objU ''Volume'' = Inl ServiceUnregistered \<and>
   Destination objU = Inl ServiceUnregistered \<and>
   Path objU = Inl ServiceUnregistered \<and>
   SetProperty pkg0 objU ''Volume'' (DInt 7) True = Inl ServiceUnregistered \<and>
   \<not> live objC \<and>
   Call pkg0 objC ''Ping'' 0 [] = Inl ConnectionClosed \<and>
   CallWithContext pkg0 objC () ''Ping'' 0 [] = Inl ConnectionClosed \<and>
   AddMatchSignal pkg0 objC ''org.test.Iface'' ''Changed'' goodOptions = Inl ConnectionClosed \<and>
   RemoveMatchSignal pkg0 objC ''org.test.Iface'' ''Changed'' goodOptions = Inl ConnectionClosed \<and>
   GetProperty objC ''Volume'' = Inl ConnectionClosed \<and>
   Destination objC = Inl ConnectionClosed \<and>
   Path objC = Inl ConnectionClosed \<and>
   SetProperty pkg0 objC ''Volume'' (DInt 7) True = Inl ConnectionClosed"
proof -
  have u: "\<not> live objU" by (simp add: live_def objU_def obj0_def svc0_def)
  have c: "\<not> live objC" by (simp add: live_def objC_def obj0_def svc0_def conn0_def)
  have du: "Destination objU = Inl ServiceUnregistered"
    by (simp add: Destination_def check_def checkRegistered_def objU_def obj0_def svc0_def)
  have dc: "Destination objC = Inl ConnectionClosed"
    by (simp add: Destination_def check_def checkRegistered_def checkOpen_def objC_def obj0_def
        svc0_def conn0_def)
  from checked_operations_panic_when_not_live [OF u, of pkg0 "''Ping''" 0 "[]" "()"
      "''org.test.Iface''" "''Changed''" goodOptions "''Volume''" "DInt 7" True]
    checked_operations_panic_when_not_live [OF c, of pkg0 "''Ping''" 0 "[]" "()"
      "''org.test.Iface''" "''Changed''" goodOptions "''Volume''" "DInt 7" True]
  show ?thesis using u c du dc by auto
qed



end
